theory Spec2Isabelle
  imports Main
begin

section \<open>Data model\<close>

text \<open>
  A JavaScript value that may be missing: reading a property that an object does not
  have gives \<open>undefined\<close>, and the initial state of \<open>useAsync\<close> stores \<open>null\<close>.
\<close>

datatype 'a js = Undefined | Null | Val 'a

text \<open>The \<open>Error\<close> object, as far as the program reads and writes it: its message.\<close>

record Error =
  message :: string

text \<open>
  \<^verbatim>\<open>type PunkData = { number: string; type: string; image: string; accessories: string[] }\<close>
\<close>

record PunkData =
  number :: string
  punk_type :: string
  image :: string
  accessories :: "string list"

text \<open>
  The state held by \<open>useReducer\<close>. The reducer is typed \<open>any\<close>, so the status is a
  string and each of \<open>data\<close> and \<open>error\<close> may be missing, \<open>null\<close> or a value.
\<close>

record PunkInfoState =
  status :: string
  data :: "PunkData js"
  error :: "Error js"

text \<open>
  An action object: \<open>{ type, data?, error? }\<close>. The tag is any string; the switch of
  the reducer compares it with \<open>===\<close>.
\<close>

record action =
  type :: string
  action_data :: "PunkData js"
  action_error :: "Error js"

section \<open>asyncReducer\<close>

text \<open>
  \<^verbatim>\<open>
  function asyncReducer(state, action) {
    switch (action.type) {
      case 'pending':  return { status: 'pending' };
      case 'resolved': return { status: 'resolved', data: action.data };
      case 'rejected': return { status: 'rejected', error: action.error };
      default: throw new Error(`Unhandled action type: ${action.type}`);
    }
  }
  \<close>
  The throw is the left summand.
\<close>

definition asyncReducer :: "PunkInfoState \<Rightarrow> action \<Rightarrow> Error + PunkInfoState" where
  "asyncReducer state action =
     (if type action = ''pending'' then
        Inr \<lparr>status = ''pending'', data = Undefined, error = Undefined\<rparr>
      else if type action = ''resolved'' then
        Inr \<lparr>status = ''resolved'', data = action_data action, error = Undefined\<rparr>
      else if type action = ''rejected'' then
        Inr \<lparr>status = ''rejected'', data = Undefined, error = action_error action\<rparr>
      else
        Inl \<lparr>message = ''Unhandled action type: '' @ type action\<rparr>)"

text \<open>
  React's \<open>useReducer\<close> feeds the dispatched actions to the reducer one after the other;
  an exception of the reducer ends the sequence.
\<close>

fun reduceAll :: "PunkInfoState \<Rightarrow> action list \<Rightarrow> Error + PunkInfoState" where
  "reduceAll state [] = Inr state"
| "reduceAll state (a # as) =
     (case asyncReducer state a of
        Inl e \<Rightarrow> Inl e
      | Inr state' \<Rightarrow> reduceAll state' as)"

text \<open>
  The first argument of \<open>useReducer\<close> in \<open>useAsync\<close>:
  \<^verbatim>\<open>{ status: 'idle', data: null, error: null, ...initialState }\<close>,
  where \<open>PunkInfo\<close> passes \<open>{ status: punkNumber ? 'pending' : 'idle' }\<close>.
\<close>

definition useAsync_initialState :: "string \<Rightarrow> PunkInfoState" where
  "useAsync_initialState st = \<lparr>status = st, data = Null, error = Null\<rparr>"

definition PunkInfo_initialState :: "string \<Rightarrow> PunkInfoState" where
  "PunkInfo_initialState punkNumber =
     useAsync_initialState (if punkNumber \<noteq> [] then ''pending'' else ''idle'')"

definition statuses :: "string list" where
  "statuses = [''idle'', ''pending'', ''resolved'', ''rejected'']"

definition recognized :: "string list" where
  "recognized = [''pending'', ''resolved'', ''rejected'']"

section \<open>useSafeDispatch\<close>

text \<open>
  \<^verbatim>\<open>
  function useSafeDispatch(dispatch) {
    const mountedRef = React.useRef(false);
    React.useLayoutEffect(() => {
      mountedRef.current = true;
      return () => { mountedRef.current = false; };
    }, []);
    return React.useCallback(
      (...args) => (mountedRef.current ? dispatch(...args) : void 0), [dispatch]);
  }
  \<close>
  The ref is private to the hook, so the wrapped dispatch works on the rest of the world
  \<open>'w\<close> and cannot touch the flag. A dispatch takes its arguments and the world, and
  either throws (\<open>Inl\<close>) or returns a value and the new world.
\<close>

type_synonym ('a, 'w, 'e, 'r) dispatcher = "'a list \<Rightarrow> 'w \<Rightarrow> 'e + ('r js \<times> 'w)"

definition mountedRef_initial :: bool where
  "mountedRef_initial = False"

definition layoutEffect :: "bool \<times> 'w \<Rightarrow> bool \<times> 'w" where
  "layoutEffect v = (True, snd v)"

definition layoutEffect_cleanup :: "bool \<times> 'w \<Rightarrow> bool \<times> 'w" where
  "layoutEffect_cleanup v = (False, snd v)"

definition useSafeDispatch ::
  "('a, 'w, 'e, 'r) dispatcher \<Rightarrow> ('a, bool \<times> 'w, 'e, 'r) dispatcher" where
  "useSafeDispatch dispatch args v =
     (if fst v then
        (case dispatch args (snd v) of
           Inl e \<Rightarrow> Inl e
         | Inr (r, w') \<Rightarrow> Inr (r, (fst v, w')))
      else Inr (Undefined, v))"

section \<open>useAsync and run\<close>

text \<open>
  What a callback of the program does when the JavaScript runtime calls it: it
  dispatches an action, or (in the second copy of the module) it asks \<open>setTimeout\<close>
  to call another callback after a delay in milliseconds.
\<close>

datatype effect = Dispatch action | SetTimeout "effect list" nat

text \<open>
  The world of one \<open>useAsync\<close> instance: the reducer's state, the promise reactions
  that the runtime has still to call (a promise never calls a reaction inside
  \<open>then\<close>, only from a later job) and the timers that are still to fire. A reaction
  waits in \<open>jobs\<close> from the call of \<open>then\<close> until the promise has settled and the
  runtime calls it; anything may happen to the view in between.
\<close>

record runtime =
  state :: PunkInfoState
  jobs :: "effect list list"
  timers :: "(effect list \<times> nat) list"

text \<open>
  \<open>unsafeDispatch\<close> is the dispatch function of \<open>React.useReducer(asyncReducer, ...)\<close>:
  it takes its first argument as the action and the state moves by the reducer. With no
  argument the reducer reads \<open>type\<close> of \<open>undefined\<close>, a TypeError. React runs the
  reducer when it next renders the component and an exception of the reducer surfaces
  there; the model runs it in the call.
\<close>

definition unsafeDispatch :: "(action, runtime, Error, unit) dispatcher" where
  "unsafeDispatch args rt =
     (case args of
        [] \<Rightarrow> Inl \<lparr>message = ''TypeError''\<rparr>
      | a # _ \<Rightarrow>
          (case asyncReducer (state rt) a of
             Inl e \<Rightarrow> Inl e
           | Inr s \<Rightarrow> Inr (Undefined, rt\<lparr>state := s\<rparr>)))"

text \<open>\<^verbatim>\<open>const dispatch = useSafeDispatch(unsafeDispatch);\<close>\<close>

definition dispatch :: "(action, bool \<times> runtime, Error, unit) dispatcher" where
  "dispatch = useSafeDispatch unsafeDispatch"

fun perform :: "effect \<Rightarrow> bool \<times> runtime \<Rightarrow> Error + bool \<times> runtime" where
  "perform (Dispatch a) v =
     (case dispatch [a] v of
        Inl e \<Rightarrow> Inl e
      | Inr (r, v') \<Rightarrow> Inr v')"
| "perform (SetTimeout callback ms) v =
     Inr (fst v, (snd v)\<lparr>timers := timers (snd v) @ [(callback, ms)]\<rparr>)"

fun performAll :: "effect list \<Rightarrow> bool \<times> runtime \<Rightarrow> Error + bool \<times> runtime" where
  "performAll [] v = Inr v"
| "performAll (x # xs) v =
     (case perform x v of
        Inl e \<Rightarrow> Inl e
      | Inr v' \<Rightarrow> performAll xs v')"

text \<open>One step after the other, as long as none throws.\<close>

definition andThen :: "'e + 'a \<Rightarrow> ('a \<Rightarrow> 'e + 'b) \<Rightarrow> 'e + 'b" where
  "andThen r f = (case r of Inl e \<Rightarrow> Inl e | Inr a \<Rightarrow> f a)"

text \<open>
  The promise handed to \<open>run\<close>, by what becomes of it: it is fulfilled with a value,
  rejected with an error, or never settles.
\<close>

datatype promise = Fulfilled PunkData | Rejected Error | Unsettled

text \<open>
  \<open>promise.then(onFulfilled, onRejected)\<close> calls neither handler: the reaction for
  the promise's settlement becomes a job of the runtime.
\<close>

definition promise_then ::
  "promise \<Rightarrow> (PunkData \<Rightarrow> effect list) \<Rightarrow> (Error \<Rightarrow> effect list) \<Rightarrow>
     bool \<times> runtime \<Rightarrow> bool \<times> runtime" where
  "promise_then p onFulfilled onRejected v =
     (case p of
        Fulfilled d \<Rightarrow> (fst v, (snd v)\<lparr>jobs := jobs (snd v) @ [onFulfilled d]\<rparr>)
      | Rejected e \<Rightarrow> (fst v, (snd v)\<lparr>jobs := jobs (snd v) @ [onRejected e]\<rparr>)
      | Unsettled \<Rightarrow> v)"

text \<open>
  The runtime takes the first job and calls it. A handler that throws (\<open>Inl\<close>) rejects
  the promise that \<open>then\<close> returned, which nobody handles: an unhandled rejection.
\<close>

definition runJob :: "bool \<times> runtime \<Rightarrow> Error + bool \<times> runtime" where
  "runJob v =
     (case jobs (snd v) of
        [] \<Rightarrow> Inr v
      | j # js \<Rightarrow> performAll j (fst v, (snd v)\<lparr>jobs := js\<rparr>))"

definition fireTimer :: "bool \<times> runtime \<Rightarrow> Error + bool \<times> runtime" where
  "fireTimer v =
     (case timers (snd v) of
        [] \<Rightarrow> Inr v
      | (callback, ms) # ts \<Rightarrow> performAll callback (fst v, (snd v)\<lparr>timers := ts\<rparr>))"

text \<open>
  \<^verbatim>\<open>
  const run = React.useCallback((promise) => {
      dispatch({ type: 'pending' });
      promise.then(
        (data) => { dispatch({ type: 'resolved', data }); },
        (error) => {
          error.message =
            'Punk does not exist, please use the correct format when sumbitting a query!';
          dispatch({ type: 'rejected', error });
        });
    }, [dispatch]);
  \<close>
  (\<open>src/App.tsx\<close>).
\<close>

definition userMessage :: string where
  "userMessage =
     ''Punk does not exist, please use the correct format when sumbitting a query!''"

definition pendingAction :: action where
  "pendingAction = \<lparr>type = ''pending'', action_data = Undefined, action_error = Undefined\<rparr>"

definition resolvedAction :: "PunkData \<Rightarrow> action" where
  "resolvedAction d = \<lparr>type = ''resolved'', action_data = Val d, action_error = Undefined\<rparr>"

definition rejectedAction :: "Error \<Rightarrow> action" where
  "rejectedAction e = \<lparr>type = ''rejected'', action_data = Undefined, action_error = Val e\<rparr>"

definition onFulfilled :: "PunkData \<Rightarrow> effect list" where
  "onFulfilled d = [Dispatch (resolvedAction d)]"

definition onRejected :: "Error \<Rightarrow> effect list" where
  "onRejected e = [Dispatch (rejectedAction (e\<lparr>message := userMessage\<rparr>))]"

definition run :: "promise \<Rightarrow> bool \<times> runtime \<Rightarrow> Error + bool \<times> runtime" where
  "run p v =
     (case perform (Dispatch pendingAction) v of
        Inl e \<Rightarrow> Inl e
      | Inr v' \<Rightarrow> Inr (promise_then p onFulfilled onRejected v'))"

text \<open>
  The second copy of the module (\<open>src/unnamed/part_000\<close>) differs in the first handler:
  \<^verbatim>\<open>
        (data) => { setTimeout(() => { dispatch({ type: 'resolved', data }); }, 2000); },
  \<close>
\<close>

definition onFulfilled_part_000 :: "PunkData \<Rightarrow> effect list" where
  "onFulfilled_part_000 d = [SetTimeout [Dispatch (resolvedAction d)] 2000]"

definition run_part_000 :: "promise \<Rightarrow> bool \<times> runtime \<Rightarrow> Error + bool \<times> runtime" where
  "run_part_000 p v =
     (case perform (Dispatch pendingAction) v of
        Inl e \<Rightarrow> Inl e
      | Inr v' \<Rightarrow> Inr (promise_then p onFulfilled_part_000 onRejected v'))"

section \<open>PunkForm: handleSubmit\<close>

text \<open>
  \<open>parseInt(string)\<close> with no radix (ECMAScript, sec. parseInt): leading white space
  is dropped, then an optional sign, then the prefix \<open>0x\<close> or \<open>0X\<close> selects radix 16
  (otherwise 10), and the longest run of digits of that radix is the number; with no digit
  the result is NaN, here \<open>None\<close>. Strings are lists of code units below 256, so the
  white space is TAB, LF, VT, FF, CR, SP and NBSP. The result is an \<open>int\<close>: the
  program only compares it with 0, 10, 100 and 9999 and prints it when it is below 100,
  which the rounding of a double does not change.
\<close>

definition isWhiteSpace :: "char \<Rightarrow> bool" where
  "isWhiteSpace c = (of_char c \<in> set [9, 10, 11, 12, 13, 32, 160 :: int])"

definition digitValue :: "char \<Rightarrow> int option" where
  "digitValue c =
     (let n = of_char c :: int in
      if 48 \<le> n \<and> n \<le> 57 then Some (n - 48)
      else if 97 \<le> n \<and> n \<le> 122 then Some (n - 87)
      else if 65 \<le> n \<and> n \<le> 90 then Some (n - 55)
      else None)"

definition isRadixDigit :: "int \<Rightarrow> char \<Rightarrow> bool" where
  "isRadixDigit R c = (case digitValue c of None \<Rightarrow> False | Some d \<Rightarrow> d < R)"

definition mathInt :: "int \<Rightarrow> string \<Rightarrow> int" where
  "mathInt R Z = foldl (\<lambda>acc c. acc * R + (case digitValue c of None \<Rightarrow> 0 | Some d \<Rightarrow> d)) 0 Z"

definition parseInt :: "string \<Rightarrow> int option" where
  "parseInt inputString =
     (let S = dropWhile isWhiteSpace inputString;
          sign = (case S of [] \<Rightarrow> (1::int) | c # _ \<Rightarrow> (if c = CHR ''-'' then - 1 else 1));
          S1 = (case S of [] \<Rightarrow> S | c # cs \<Rightarrow> (if c = CHR ''+'' \<or> c = CHR ''-'' then cs else S));
          hex = (take 2 S1 = ''0x'' \<or> take 2 S1 = ''0X'');
          R = (if hex then 16 else 10);
          S2 = (if hex then drop 2 S1 else S1);
          Z = takeWhile (isRadixDigit R) S2
      in if Z = [] then None else Some (sign * mathInt R Z))"

text \<open>
  The decimal digits of a number, as the template literal \<open>`${n}`\<close> writes an integer
  (of absolute value below \<open>10^21\<close>; the program prints 0 to 99 only).
\<close>

fun digits :: "nat \<Rightarrow> string" where
  "digits n =
     (if n < 10 then [char_of (48 + n)]
      else digits (n div 10) @ [char_of (48 + n mod 10)])"

declare digits.simps [simp del]

definition toString :: "int \<Rightarrow> string" where
  "toString n = (if n < 0 then CHR ''-'' # digits (nat (- n)) else digits (nat n))"

text \<open>
  \<^verbatim>\<open>
  function handleSubmit(e) {
    e.preventDefault();
    let parsedPunk = '';
    if (isNaN(parseInt(punkName))) { return; }
    if (parseInt(punkName) < 100 && parseInt(punkName) >= 10) {
      parsedPunk = `0${parseInt(punkName)}`; onSubmit(parsedPunk); return;
    } else if (parseInt(punkName) < 10 && parseInt(punkName) >= 0) {
      parsedPunk = `00${parseInt(punkName)}`; onSubmit(parsedPunk); return;
    } else if (parseInt(punkName) > 9999) {
      parsedPunk = punkName.slice(0, 4); onSubmit(parsedPunk);
    } else { onSubmit(punkName); }
  }
  \<close>
  (\<open>src/App.tsx\<close>). The result is the argument of the one call of \<open>onSubmit\<close>, or
  \<open>None\<close> when the function returns without calling it.
\<close>

definition handleSubmit :: "string \<Rightarrow> string option" where
  "handleSubmit punkName =
     (case parseInt punkName of
        None \<Rightarrow> None
      | Some n \<Rightarrow>
          if n < 100 \<and> n \<ge> 10 then Some (''0'' @ toString n)
          else if n < 10 \<and> n \<ge> 0 then Some (''00'' @ toString n)
          else if n > 9999 then Some (take 4 punkName)
          else Some punkName)"

text \<open>
  The second copy of the module (\<open>src/unnamed/part_000\<close>) has no branch for numbers
  above 9999: after the two padding branches comes \<^verbatim>\<open>else { onSubmit(punkName); }\<close>.
\<close>

definition handleSubmit_part_000 :: "string \<Rightarrow> string option" where
  "handleSubmit_part_000 punkName =
     (case parseInt punkName of
        None \<Rightarrow> None
      | Some n \<Rightarrow>
          if n < 100 \<and> n \<ge> 10 then Some (''0'' @ toString n)
          else if n < 10 \<and> n \<ge> 0 then Some (''00'' @ toString n)
          else Some punkName)"

section \<open>PunkInfo\<close>

text \<open>
  What a component returns: the placeholder \<^verbatim>\<open><p> </p>\<close> or an element of another
  component with its props.
\<close>

datatype element =
    Placeholder
  | PunkCardFallback_element string
  | ValidPunkCard_element string "PunkData js"

text \<open>
  \<^verbatim>\<open>
  if (status === 'idle' || !punkNumber) { return <p> </p>; }
  else if (status === 'pending') { return <PunkCardFallback number={number} />; }
  else if (status === 'rejected') { throw error; }
  else if (status === 'resolved') { return <ValidPunkCard number={number} punk={data} />; }
  throw new Error('This exists outside the error boundry and should not display');
  \<close>
  What is thrown is the \<open>error\<close> of the state, whatever it holds.
\<close>

definition PunkInfo :: "string \<Rightarrow> string \<Rightarrow> PunkInfoState \<Rightarrow> Error js + element" where
  "PunkInfo punkNumber number' st =
     (if status st = ''idle'' \<or> punkNumber = [] then Inr Placeholder
      else if status st = ''pending'' then Inr (PunkCardFallback_element number')
      else if status st = ''rejected'' then Inl (error st)
      else if status st = ''resolved'' then Inr (ValidPunkCard_element number' (data st))
      else Inl (Val \<lparr>message =
        ''This exists outside the error boundry and should not display''\<rparr>))"

text \<open>
  \<^verbatim>\<open>
  function PunkCardFallback({ number }) {
    const initialNumber = React.useRef(number).current;
    const fallbackPunkData = { number: initialNumber, type: 'XXXXX',
      image: '/default.PNG', accessories: ['loading...'] };
    return <ValidPunkCard key={number} number={number} punk={fallbackPunkData} />;
  }
  \<close>
  \<open>useRef\<close> keeps what it was given at the first render of the instance: \<open>ref\<close> is
  \<open>None\<close> at the first render and holds that value afterwards.
\<close>

definition useRef :: "'a option \<Rightarrow> 'a \<Rightarrow> 'a" where
  "useRef ref initialValue = (case ref of None \<Rightarrow> initialValue | Some v \<Rightarrow> v)"

definition PunkCardFallback :: "string option \<Rightarrow> string \<Rightarrow> element" where
  "PunkCardFallback ref number' =
     (let initialNumber = useRef ref number';
          fallbackPunkData = \<lparr>number = initialNumber, punk_type = ''XXXXX'',
            image = ''/default.PNG'', accessories = [''loading...'']\<rparr>
      in ValidPunkCard_element number' (Val fallbackPunkData))"

section \<open>The reducer\<close>

lemma asyncReducer_recognized:
  "type a \<in> set recognized \<Longrightarrow>
     \<exists>s'. asyncReducer s a = Inr s' \<and> status s' \<in> set recognized"
  by (auto simp: asyncReducer_def recognized_def)

lemma recognized_statuses: "x \<in> set recognized \<Longrightarrow> x \<in> set statuses"
  by (auto simp: recognized_def statuses_def)

text \<open>
  C2. Whatever the state before and whatever else the action carries, an action with the
  tag \<open>pending\<close> gives exactly the state \<open>{ status: 'pending' }\<close>: it has neither
  \<open>data\<close> nor \<open>error\<close>, so a value or an error held before is gone.
\<close>

theorem asyncReducer_pending:
  "asyncReducer s (a\<lparr>type := ''pending''\<rparr>) =
     Inr \<lparr>status = ''pending'', data = Undefined, error = Undefined\<rparr>"
  by (simp add: asyncReducer_def)

text \<open>
  C3. For every state and every action whose tag is none of \<open>pending\<close>, \<open>resolved\<close>,
  \<open>rejected\<close>, the reducer throws an error (with the message naming the tag) and
  returns no state.
\<close>

theorem asyncReducer_unhandled:
  "type a \<notin> set recognized \<Longrightarrow>
     asyncReducer s a = Inl \<lparr>message = ''Unhandled action type: '' @ type a\<rparr>"
  by (simp add: asyncReducer_def recognized_def)

theorem asyncReducer_unhandled_witness:
  "type \<lparr>type = ''reset'', action_data = Undefined, action_error = Undefined\<rparr>
     \<notin> set recognized \<and>
   asyncReducer \<lparr>status = ''resolved'', data = Null, error = Null\<rparr>
     \<lparr>type = ''reset'', action_data = Undefined, action_error = Undefined\<rparr> =
     Inl \<lparr>message = ''Unhandled action type: reset''\<rparr>"
  using asyncReducer_unhandled
    [of "\<lparr>type = ''reset'', action_data = Undefined, action_error = Undefined\<rparr>"
        "\<lparr>status = ''resolved'', data = Null, error = Null\<rparr>"]
  by (simp add: recognized_def)

text \<open>
  C4. From a state whose status is one of \<open>idle\<close>, \<open>pending\<close>, \<open>resolved\<close>,
  \<open>rejected\<close>, every sequence of actions with recognized tags runs through the reducer
  without an exception and ends in a state whose status is again one of the four.
\<close>

theorem reduceAll_status:
  "status s \<in> set statuses \<Longrightarrow> \<forall>a \<in> set as. type a \<in> set recognized \<Longrightarrow>
     \<exists>s'. reduceAll s as = Inr s' \<and> status s' \<in> set statuses"
proof (induction as arbitrary: s)
  case Nil
  then show ?case by simp
next
  case (Cons a as)
  from Cons.prems(2) have "type a \<in> set recognized" by simp
  then obtain s1 where s1: "asyncReducer s a = Inr s1" "status s1 \<in> set recognized"
    using asyncReducer_recognized by blast
  from Cons.prems(2) have rest: "\<forall>b \<in> set as. type b \<in> set recognized" by simp
  from s1(2) have "status s1 \<in> set statuses" by (rule recognized_statuses)
  from Cons.IH [OF this rest] show ?case using s1(1) by simp
qed

theorem reduceAll_status_witness:
  "status (PunkInfo_initialState ''007'') \<in> set statuses \<and>
   (\<exists>s'. reduceAll (PunkInfo_initialState ''007'')
      [pendingAction, rejectedAction \<lparr>message = ''404''\<rparr>, pendingAction,
       resolvedAction \<lparr>number = ''007'', punk_type = ''Male'', image = ''x.png'',
         accessories = [''Cap'']\<rparr>] = Inr s' \<and> status s' \<in> set statuses)"
proof -
  have h1: "status (PunkInfo_initialState ''007'') \<in> set statuses"
    by (simp add: PunkInfo_initialState_def useAsync_initialState_def statuses_def)
  have h2: "\<forall>a \<in> set [pendingAction, rejectedAction \<lparr>message = ''404''\<rparr>, pendingAction,
       resolvedAction \<lparr>number = ''007'', punk_type = ''Male'', image = ''x.png'',
         accessories = [''Cap'']\<rparr>]. type a \<in> set recognized"
    by (simp add: pendingAction_def rejectedAction_def resolvedAction_def recognized_def)
  from reduceAll_status [OF h1 h2] h1 show ?thesis by blast
qed

section \<open>The safe dispatcher\<close>

text \<open>
  C1. For every wrapped dispatch \<open>d\<close>, every arguments and every world: when the mount
  flag is false (as it is after the cleanup of the layout effect) the safe dispatcher
  returns \<open>undefined\<close> without an error and leaves the world, which holds the lifecycle
  state and anything \<open>d\<close> could have written, as it was, so \<open>d\<close> was not called; when
  the flag is true the result is that of \<open>d\<close> on the same arguments, in the same call.
\<close>

theorem useSafeDispatch_drops_or_forwards:
  "useSafeDispatch d args (False, w) = Inr (Undefined, (False, w)) \<and>
   useSafeDispatch d args (True, w) =
     (case d args w of Inl e \<Rightarrow> Inl e | Inr (r, w') \<Rightarrow> Inr (r, (True, w'))) \<and>
   useSafeDispatch d args (layoutEffect_cleanup v) = Inr (Undefined, layoutEffect_cleanup v)"
  by (simp add: useSafeDispatch_def layoutEffect_cleanup_def split: sum.splits prod.splits)

section \<open>run\<close>

lemma perform_pending:
  "perform (Dispatch pendingAction) (True, rt) =
     Inr (True, rt\<lparr>state := \<lparr>status = ''pending'', data = Undefined, error = Undefined\<rparr>\<rparr>)"
  "perform (Dispatch pendingAction) (False, rt) = Inr (False, rt)"
  by (simp_all add: dispatch_def useSafeDispatch_def unsafeDispatch_def asyncReducer_def
      pendingAction_def)

lemma perform_resolved:
  "perform (Dispatch (resolvedAction d)) (True, rt) =
     Inr (True, rt\<lparr>state := \<lparr>status = ''resolved'', data = Val d, error = Undefined\<rparr>\<rparr>)"
  "perform (Dispatch (resolvedAction d)) (False, rt) = Inr (False, rt)"
  by (simp_all add: dispatch_def useSafeDispatch_def unsafeDispatch_def asyncReducer_def
      resolvedAction_def)

lemma perform_rejected:
  "perform (Dispatch (rejectedAction e)) (True, rt) =
     Inr (True, rt\<lparr>state := \<lparr>status = ''rejected'', data = Undefined, error = Val e\<rparr>\<rparr>)"
  "perform (Dispatch (rejectedAction e)) (False, rt) = Inr (False, rt)"
  by (simp_all add: dispatch_def useSafeDispatch_def unsafeDispatch_def asyncReducer_def
      rejectedAction_def)

text \<open>
  C5, as stated, fails when the view is detached before the promise is rejected: \<open>run\<close>
  on a mounted view, then the cleanup of the layout effect, then the reaction to the
  rejection with message \<open>404\<close>. The state stays \<open>pending\<close>; it is not \<open>rejected\<close>.
\<close>

theorem run_rejected_counterexample:
  "andThen (run (Rejected \<lparr>message = ''404''\<rparr>)
       (True, \<lparr>state = PunkInfo_initialState ''007'', jobs = [], timers = []\<rparr>))
     (\<lambda>v. runJob (layoutEffect_cleanup v)) =
   Inr (False, \<lparr>state = \<lparr>status = ''pending'', data = Undefined, error = Undefined\<rparr>,
     jobs = [], timers = []\<rparr>)"
  by (simp del: perform.simps add: run_def andThen_def promise_then_def runJob_def
      onRejected_def perform_rejected perform_pending layoutEffect_cleanup_def)

text \<open>
  C5, amended. In both copies of the module, \<open>run\<close> on a promise that is rejected with
  any error \<open>e\<close> queues the reaction \<open>onRejected e\<close> after its \<open>pending\<close> dispatch.
  When the runtime calls that reaction on a mounted view, in whatever state, the state
  becomes exactly \<open>rejected\<close> with the error carrying the fixed message, whatever the
  message of \<open>e\<close> was; on a detached view the state is left as it was. In both cases the
  reaction returns without throwing, so there is no unhandled rejection. With nothing else
  queued, \<open>run\<close> followed by the reaction on a view that stays mounted ends in that
  \<open>rejected\<close> state.
\<close>

theorem run_rejected:
  "run (Rejected e) (m, rt) = andThen (perform (Dispatch pendingAction) (m, rt))
      (\<lambda>v. Inr (fst v, (snd v)\<lparr>jobs := jobs (snd v) @ [onRejected e]\<rparr>)) \<and>
   run_part_000 (Rejected e) (m, rt) = run (Rejected e) (m, rt) \<and>
   runJob (True, rt'\<lparr>jobs := onRejected e # js\<rparr>) =
     Inr (True, rt'\<lparr>jobs := js, state := \<lparr>status = ''rejected'', data = Undefined,
       error = Val (e\<lparr>message :=
         ''Punk does not exist, please use the correct format when sumbitting a query!''\<rparr>)\<rparr>\<rparr>) \<and>
   runJob (False, rt'\<lparr>jobs := onRejected e # js\<rparr>) = Inr (False, rt'\<lparr>jobs := js\<rparr>) \<and>
   andThen (run (Rejected e) (True, rt\<lparr>jobs := []\<rparr>)) runJob =
     Inr (True, rt\<lparr>jobs := [], state := \<lparr>status = ''rejected'', data = Undefined,
       error = Val (e\<lparr>message :=
         ''Punk does not exist, please use the correct format when sumbitting a query!''\<rparr>)\<rparr>\<rparr>)"
  by (simp del: perform.simps add: run_def run_part_000_def andThen_def promise_then_def
      runJob_def onRejected_def perform_rejected perform_pending userMessage_def
      split: sum.splits)

text \<open>
  C6, as stated, fails when \<open>run\<close> is called while the mount flag is false, as it is
  before the layout effect has run: the \<open>pending\<close> dispatch is dropped and the state is
  still \<open>idle\<close> when \<open>run\<close> returns; once the view is attached, the reaction to the
  fulfilled promise takes the state from \<open>idle\<close> to \<open>resolved\<close>, and \<open>pending\<close> was
  never the state.
\<close>

theorem run_started_first_counterexample:
  "run (Fulfilled \<lparr>number = ''007'', punk_type = ''Male'', image = ''x.png'',
        accessories = [''Cap'']\<rparr>)
     (mountedRef_initial, \<lparr>state = useAsync_initialState ''idle'', jobs = [], timers = []\<rparr>) =
   Inr (False, \<lparr>state = \<lparr>status = ''idle'', data = Null, error = Null\<rparr>,
     jobs = [onFulfilled \<lparr>number = ''007'', punk_type = ''Male'', image = ''x.png'',
        accessories = [''Cap'']\<rparr>], timers = []\<rparr>) \<and>
   runJob (layoutEffect (False, \<lparr>state = \<lparr>status = ''idle'', data = Null, error = Null\<rparr>,
     jobs = [onFulfilled \<lparr>number = ''007'', punk_type = ''Male'', image = ''x.png'',
        accessories = [''Cap'']\<rparr>], timers = []\<rparr>)) =
   Inr (True, \<lparr>state = \<lparr>status = ''resolved'', data = Val \<lparr>number = ''007'',
        punk_type = ''Male'', image = ''x.png'', accessories = [''Cap'']\<rparr>, error = Undefined\<rparr>,
     jobs = [], timers = []\<rparr>)"
  by (simp del: perform.simps add: run_def promise_then_def runJob_def onFulfilled_def
      mountedRef_initial_def useAsync_initialState_def perform_resolved perform_pending
      layoutEffect_def)

text \<open>
  C6, amended. In both copies of the module and for every promise, \<open>run\<close> issues the
  \<open>pending\<close> dispatch before it hands the handlers to \<open>then\<close>, and \<open>then\<close> only puts
  the reaction at the end of the job queue: it changes neither the flag, nor the state,
  nor the timers. So when \<open>run\<close> returns no settlement has been dispatched; the state is
  \<open>pending\<close> if the view was mounted at the call, and unchanged if it was not.
\<close>

theorem run_started_first:
  "run p (True, rt) = Inr (promise_then p onFulfilled onRejected
      (True, rt\<lparr>state := \<lparr>status = ''pending'', data = Undefined, error = Undefined\<rparr>\<rparr>)) \<and>
   run p (False, rt) = Inr (promise_then p onFulfilled onRejected (False, rt)) \<and>
   run_part_000 p (True, rt) = Inr (promise_then p onFulfilled_part_000 onRejected
      (True, rt\<lparr>state := \<lparr>status = ''pending'', data = Undefined, error = Undefined\<rparr>\<rparr>)) \<and>
   run_part_000 p (False, rt) = Inr (promise_then p onFulfilled_part_000 onRejected (False, rt)) \<and>
   fst (promise_then p f r v) = fst v \<and>
   state (snd (promise_then p f r v)) = state (snd v) \<and>
   timers (snd (promise_then p f r v)) = timers (snd v) \<and>
   jobs (snd (promise_then p f r v)) = jobs (snd v) @
     (case p of Fulfilled d \<Rightarrow> [f d] | Rejected e \<Rightarrow> [r e] | Unsettled \<Rightarrow> [])"
  by (simp del: perform.simps add: run_def run_part_000_def perform_pending promise_then_def
      split: promise.splits)

text \<open>
  C7, as stated, fails on the second copy of the module: after \<open>run\<close> on a mounted view
  and the reaction to the fulfilled promise, the state is still \<open>pending\<close> and the
  \<open>resolved\<close> dispatch waits behind a timer of 2000 ms that the handler of \<open>run\<close> set.
\<close>

theorem run_fulfilled_timing_counterexample:
  "andThen (run_part_000 (Fulfilled \<lparr>number = ''007'', punk_type = ''Male'', image = ''x.png'',
        accessories = [''Cap'']\<rparr>)
       (True, \<lparr>state = PunkInfo_initialState ''007'', jobs = [], timers = []\<rparr>)) runJob =
   Inr (True, \<lparr>state = \<lparr>status = ''pending'', data = Undefined, error = Undefined\<rparr>,
     jobs = [],
     timers = [([Dispatch (resolvedAction \<lparr>number = ''007'', punk_type = ''Male'',
        image = ''x.png'', accessories = [''Cap'']\<rparr>)], 2000)]\<rparr>)"
  by (simp del: perform.simps add: perform.simps(2) run_part_000_def andThen_def
      promise_then_def runJob_def onFulfilled_part_000_def perform_pending)

text \<open>
  C7, amended. In \<open>src/App.tsx\<close> the handler for a fulfilled promise is the one
  \<open>resolved\<close> dispatch: \<open>run\<close> queues it, and when the runtime calls it on a mounted
  view the state is \<open>resolved\<close> at once and no timer is set. In the second copy of the
  module the handler only sets a timer of 2000 ms: the state and the other timers stay as
  they were, and the \<open>resolved\<close> dispatch happens when that timer fires.
\<close>

theorem run_fulfilled_timing:
  "onFulfilled d = [Dispatch (resolvedAction d)] \<and>
   run (Fulfilled d) (m, rt) = andThen (perform (Dispatch pendingAction) (m, rt))
      (\<lambda>v. Inr (fst v, (snd v)\<lparr>jobs := jobs (snd v) @ [onFulfilled d]\<rparr>)) \<and>
   runJob (True, rt'\<lparr>jobs := onFulfilled d # js\<rparr>) =
     Inr (True, rt'\<lparr>jobs := js,
       state := \<lparr>status = ''resolved'', data = Val d, error = Undefined\<rparr>\<rparr>) \<and>
   onFulfilled_part_000 d = [SetTimeout [Dispatch (resolvedAction d)] 2000] \<and>
   run_part_000 (Fulfilled d) (m, rt) = andThen (perform (Dispatch pendingAction) (m, rt))
      (\<lambda>v. Inr (fst v, (snd v)\<lparr>jobs := jobs (snd v) @ [onFulfilled_part_000 d]\<rparr>)) \<and>
   runJob (True, rt'\<lparr>jobs := onFulfilled_part_000 d # js\<rparr>) =
     Inr (True, rt'\<lparr>jobs := js,
       timers := timers rt' @ [([Dispatch (resolvedAction d)], 2000)]\<rparr>) \<and>
   fireTimer (True, rt'\<lparr>timers := ([Dispatch (resolvedAction d)], 2000) # ts\<rparr>) =
     Inr (True, rt'\<lparr>timers := ts,
       state := \<lparr>status = ''resolved'', data = Val d, error = Undefined\<rparr>\<rparr>)"
  by (simp del: perform.simps add: perform.simps(2) run_def run_part_000_def andThen_def
      promise_then_def runJob_def fireTimer_def onFulfilled_def onFulfilled_part_000_def
      perform_resolved split: sum.splits)

section \<open>The form\<close>

lemma length_toString_small:
  assumes "0 \<le> n" "n < 10"
  shows "length (toString n) = 1"
proof -
  have "nat n < 10" using assms by linarith
  then show ?thesis using assms
    by (simp add: toString_def digits.simps [of "nat n"])
qed

lemma length_toString_two:
  assumes "10 \<le> n" "n < 100"
  shows "length (toString n) = 2"
proof -
  have "nat n div 10 < 10" using assms by linarith
  then have "length (digits (nat n div 10)) = 1"
    by (simp add: digits.simps [of "nat n div 10"])
  moreover have "\<not> nat n < 10" using assms by linarith
  ultimately show ?thesis using assms
    by (simp add: toString_def digits.simps [of "nat n"])
qed

text \<open>
  C8, as stated, fails on the second copy of the module, which has no branch for numbers
  above 9999: the input \<open>99999\<close> is passed on whole, not cut to its first four
  characters.
\<close>

theorem handleSubmit_normalizes_counterexample:
  "parseInt ''99999'' = Some 99999 \<and> (9999::int) < 99999 \<and>
   handleSubmit_part_000 ''99999'' = Some ''99999'' \<and>
   handleSubmit_part_000 ''99999'' \<noteq> Some (take 4 ''99999'')"
proof -
  have p: "parseInt ''99999'' = Some 99999" by code_simp
  have h: "handleSubmit_part_000 ''99999'' = Some ''99999''" by code_simp
  show ?thesis unfolding p h by simp
qed

text \<open>
  C8, amended. In both copies, when \<open>parseInt\<close> of the input is NaN \<open>onSubmit\<close> is
  not called; when the parsed number \<open>n\<close> is from 0 to 99, \<open>onSubmit\<close> gets the
  decimal digits of \<open>n\<close> with zeros in front, three characters in all; when \<open>n\<close> is
  negative or from 100 to 9999 it gets the input unchanged. When \<open>n\<close> is above 9999,
  \<open>src/App.tsx\<close> passes the first four characters of the input and the second copy
  passes the input unchanged.
\<close>

theorem handleSubmit_normalizes:
  "(parseInt p = None \<longrightarrow> handleSubmit p = None \<and> handleSubmit_part_000 p = None) \<and>
   (\<forall>n. parseInt p = Some n \<longrightarrow>
      (0 \<le> n \<and> n < 100 \<longrightarrow>
         handleSubmit p = Some (replicate (3 - length (toString n)) CHR ''0'' @ toString n) \<and>
         handleSubmit_part_000 p = handleSubmit p \<and>
         length (replicate (3 - length (toString n)) CHR ''0'' @ toString n) = 3) \<and>
      (9999 < n \<longrightarrow> handleSubmit p = Some (take 4 p) \<and> handleSubmit_part_000 p = Some p) \<and>
      (n < 0 \<or> (100 \<le> n \<and> n \<le> 9999) \<longrightarrow>
         handleSubmit p = Some p \<and> handleSubmit_part_000 p = Some p))"
proof (cases "parseInt p")
  case None
  then show ?thesis by (simp add: handleSubmit_def handleSubmit_part_000_def)
next
  case (Some n)
  consider "0 \<le> n \<and> n < 10" | "10 \<le> n \<and> n < 100" | "n < 0 \<or> 100 \<le> n"
    by linarith
  then show ?thesis
  proof cases
    case 1
    then show ?thesis
      using Some length_toString_small [of n]
      by (simp add: handleSubmit_def handleSubmit_part_000_def eval_nat_numeral)
  next
    case 2
    then show ?thesis
      using Some length_toString_two [of n]
      by (simp add: handleSubmit_def handleSubmit_part_000_def eval_nat_numeral)
  next
    case 3
    then show ?thesis
      using Some by (auto simp: handleSubmit_def handleSubmit_part_000_def)
  qed
qed

theorem handleSubmit_normalizes_witness:
  "parseInt ''abc'' = None \<and> handleSubmit ''abc'' = None \<and>
   parseInt ''7'' = Some 7 \<and> handleSubmit ''7'' = Some ''007'' \<and>
   handleSubmit_part_000 ''7'' = Some ''007'' \<and>
   parseInt ''99999'' = Some 99999 \<and> handleSubmit ''99999'' = Some ''9999'' \<and>
   handleSubmit_part_000 ''99999'' = Some ''99999'' \<and>
   parseInt ''1234'' = Some 1234 \<and> handleSubmit ''1234'' = Some ''1234''"
proof -
  have a: "parseInt ''abc'' = None" by code_simp
  have b: "parseInt ''7'' = Some 7" by code_simp
  have c: "parseInt ''99999'' = Some 99999" by code_simp
  have d: "parseInt ''1234'' = Some 1234" by code_simp
  have t: "replicate (3 - length (toString 7)) CHR ''0'' @ toString 7 = ''007''" by code_simp
  from handleSubmit_normalizes [of "''abc''"] a
  have 1: "handleSubmit ''abc'' = None" by simp
  from handleSubmit_normalizes [of "''7''"] b t
  have 2: "handleSubmit ''7'' = Some ''007'' \<and> handleSubmit_part_000 ''7'' = Some ''007''"
    by simp
  from handleSubmit_normalizes [of "''99999''"] c
  have 3: "handleSubmit ''99999'' = Some ''9999'' \<and>
    handleSubmit_part_000 ''99999'' = Some ''99999''" by simp
  from handleSubmit_normalizes [of "''1234''"] d
  have 4: "handleSubmit ''1234'' = Some ''1234''" by simp
  from a b c d 1 2 3 4 show ?thesis by simp
qed

text \<open>
  C10. An input whose \<open>parseInt\<close> is negative goes to \<open>onSubmit\<close> as it is, in
  both copies of the module: it is neither padded, nor cut, nor refused.
\<close>

theorem handleSubmit_negative:
  "parseInt punkName = Some n \<Longrightarrow> n < 0 \<Longrightarrow>
     handleSubmit punkName = Some punkName \<and> handleSubmit_part_000 punkName = Some punkName"
  by (simp add: handleSubmit_def handleSubmit_part_000_def)

theorem handleSubmit_negative_witness:
  "parseInt ''-5'' = Some (- 5) \<and> (- 5 :: int) < 0 \<and>
   handleSubmit ''-5'' = Some ''-5'' \<and> handleSubmit_part_000 ''-5'' = Some ''-5''"
proof -
  have p: "parseInt ''-5'' = Some (- 5)" by code_simp
  from handleSubmit_negative [OF p] p show ?thesis by simp
qed

section \<open>PunkInfo\<close>

text \<open>
  C9. With the empty identifier, \<open>PunkInfo\<close> returns the placeholder in every state.
  With an identifier that is not empty, the state \<open>pending\<close> gives the fallback card,
  whose data are the \<open>number\<close> it was first given (at the first render, the one it
  is given) and constants, and the state \<open>rejected\<close> throws the error of the state
  instead of returning an element.
\<close>

theorem PunkInfo_render:
  "PunkInfo [] num st = Inr Placeholder \<and>
   PunkInfo (c # cs) num (st\<lparr>status := ''pending''\<rparr>) = Inr (PunkCardFallback_element num) \<and>
   PunkCardFallback ref num = ValidPunkCard_element num
     (Val \<lparr>number = useRef ref num, punk_type = ''XXXXX'', image = ''/default.PNG'',
        accessories = [''loading...'']\<rparr>) \<and>
   useRef None num = num \<and>
   PunkInfo (c # cs) num (st\<lparr>status := ''rejected''\<rparr>) = Inl (error st)"
  by (simp add: PunkInfo_def PunkCardFallback_def useRef_def)

end
